theory Spec2Isabelle
  imports Complex_Main "HOL-Library.Multiset"
begin

section \<open>Python values: strings, exceptions, JSON\<close>

text \<open>
  The program is the measurement service of \<^verbatim>\<open>src/app.py\<close>: the routes
  \<^verbatim>\<open>crear_mediciones\<close> and \<^verbatim>\<open>consultar_mediciones\<close> and the helper
  \<^verbatim>\<open>parse_iso_datetime\<close>. The file \<^verbatim>\<open>src/ola.py\<close> holds the same two routes line by
  line, with English names for the fields, the parameters and the messages; it defines
  neither the helpers nor the table, so the model follows \<^verbatim>\<open>src/app.py\<close>. Strings are
  lists of characters with code points below 256, so the accented letters of the
  messages are written \<open>CHR 0xCD\<close>, \<open>CHR 0xE1\<close>.
\<close>

datatype exn =
    KeyError string        \<comment> \<open>the missing key\<close>
  | ValueError string      \<comment> \<open>the message\<close>
  | TypeError
  | OverflowError
  | IntegrityError int     \<comment> \<open>the database: no sensor with this id\<close>
  | DataError int          \<comment> \<open>the database: a value out of range, as a \<^verbatim>\<open>LIMIT\<close> that is
                               negative or not a \<^verbatim>\<open>bigint\<close>\<close>

text \<open>
  What \<^verbatim>\<open>request.get_json(silent=True)\<close> returns: \<open>JNull\<close> is Python's \<open>None\<close>
  (a body that is not JSON, or the JSON literal null). The type \<open>'f\<close> is the type of
  floating-point values, which the program only carries.
\<close>

datatype 'f json =
    JNull
  | JBool bool
  | JInt int
  | JFloat 'f
  | JStr string
  | JArr "'f json list"
  | JObj "(string \<times> 'f json) list"

subsection \<open>String operations of the standard library\<close>

definition is_space :: "char \<Rightarrow> bool" where
  "is_space c =
     (let n = (of_char c :: nat)
      in (9 \<le> n \<and> n \<le> 13) \<or> (28 \<le> n \<and> n \<le> 32) \<or> n = 133 \<or> n = 160)"

definition is_digit :: "char \<Rightarrow> bool" where
  "is_digit c = (let n = (of_char c :: nat) in 48 \<le> n \<and> n \<le> 57)"

definition digit_val :: "char \<Rightarrow> int" where
  "digit_val c = int (of_char c) - 48"

definition strip :: "string \<Rightarrow> string" where
  "strip s = rev (dropWhile is_space (rev (dropWhile is_space s)))"

text \<open>\<^verbatim>\<open>str.lower()\<close> on code points below 256.\<close>

definition lower_char :: "char \<Rightarrow> char" where
  "lower_char c =
     (let n = (of_char c :: nat)
      in if (65 \<le> n \<and> n \<le> 90) \<or> (192 \<le> n \<and> n \<le> 222 \<and> n \<noteq> 215)
         then char_of (n + 32) else c)"

definition lower :: "string \<Rightarrow> string" where
  "lower s = map lower_char s"

text \<open>\<^verbatim>\<open>value.replace("Z", "+00:00")\<close>: every \<open>Z\<close> of the text is replaced.\<close>

fun replace_Z :: "string \<Rightarrow> string" where
  "replace_Z [] = []"
| "replace_Z (c # cs) = (if c = CHR ''Z'' then ''+00:00'' @ replace_Z cs else c # replace_Z cs)"

text \<open>Decimal rendering of the item position in \<^verbatim>\<open>f"...#{i}..."\<close>.\<close>

fun show_nat :: "nat \<Rightarrow> string" where
  "show_nat n =
     (if n < 10 then [char_of (48 + n)]
      else show_nat (n div 10) @ [char_of (48 + n mod 10)])"

declare show_nat.simps [simp del]

text \<open>
  \<^verbatim>\<open>repr\<close> of a string, as it appears in the messages of \<^verbatim>\<open>KeyError\<close> and of the
  conversion errors: quotes chosen as Python does, backslash escapes for the quote, the
  backslash and the characters that are not printable.
\<close>

definition hex_digit :: "nat \<Rightarrow> char" where
  "hex_digit n = (if n < 10 then char_of (48 + n) else char_of (87 + n))"

definition printable :: "char \<Rightarrow> bool" where
  "printable c =
     (let n = (of_char c :: nat) in (32 \<le> n \<and> n < 127) \<or> (161 \<le> n \<and> n \<noteq> 173))"

definition repr_char :: "char \<Rightarrow> char \<Rightarrow> string" where
  "repr_char q c =
     (if c = q \<or> c = CHR 0x5C then [CHR 0x5C, c]
      else if c = CHR 0x0A then [CHR 0x5C, CHR ''n'']
      else if c = CHR 0x0D then [CHR 0x5C, CHR ''r'']
      else if c = CHR 0x09 then [CHR 0x5C, CHR ''t'']
      else if printable c then [c]
      else [CHR 0x5C, CHR ''x'', hex_digit (of_char c div 16), hex_digit (of_char c mod 16)])"

definition py_repr :: "string \<Rightarrow> string" where
  "py_repr s =
     (let q = (if CHR 0x27 \<in> set s \<and> CHR 0x22 \<notin> set s then CHR 0x22 else CHR 0x27)
      in [q] @ concat (map (repr_char q) s) @ [q])"

subsection \<open>\<^verbatim>\<open>int(...)\<close>\<close>

text \<open>
  \<^verbatim>\<open>int(s)\<close> on a string, base 10: surrounding whitespace is stripped, one sign is
  allowed, then digits, with single underscores between digits. \<open>None\<close> is the
  \<^verbatim>\<open>ValueError\<close>.
\<close>

fun int_digits :: "bool \<Rightarrow> int \<Rightarrow> string \<Rightarrow> int option" where
  "int_digits prev acc [] = (if prev then Some acc else None)"
| "int_digits prev acc (c # cs) =
     (if is_digit c then int_digits True (10 * acc + digit_val c) cs
      else if c = CHR ''_'' \<and> prev \<and> cs \<noteq> [] then int_digits False acc cs
      else None)"

definition py_int_str :: "string \<Rightarrow> int option" where
  "py_int_str s =
     (case strip s of
        [] \<Rightarrow> None
      | c # cs \<Rightarrow>
          if c = CHR ''-'' then map_option uminus (int_digits False 0 cs)
          else if c = CHR ''+'' then int_digits False 0 cs
          else int_digits False 0 (c # cs))"

text \<open>
  The parts of the standard library that the model takes as given: the ISO 8601 parser
  \<^verbatim>\<open>datetime.fromisoformat\<close> (its grammar differs between Python versions), the
  conversions to and from floating point, and the exception with which the database
  driver refuses to read back a stored instant that no \<^verbatim>\<open>datetime\<close> can hold (its class
  differs between drivers). \<open>None\<close> is the library's \<^verbatim>\<open>ValueError\<close> (for
  \<open>float_of_int\<close>, its \<^verbatim>\<open>OverflowError\<close>).
\<close>

record datetime =
  year :: nat
  month :: nat
  day :: nat
  hour :: nat
  minute :: nat
  second :: nat
  microsecond :: nat
  tzinfo :: "int option"   \<comment> \<open>the UTC offset in microseconds; \<open>None\<close> for a naive value\<close>

record 'f pylib =
  fromisoformat :: "string \<Rightarrow> datetime option"
  float_of_str :: "string \<Rightarrow> 'f option"
  float_of_int :: "int \<Rightarrow> 'f option"
  int_of_float :: "'f \<Rightarrow> exn + int"
  fetch_error :: "int \<Rightarrow> exn"

definition int_msg :: "string \<Rightarrow> string" where
  "int_msg s = ''invalid literal for int() with base 10: '' @ py_repr s"

definition float_msg :: "string \<Rightarrow> string" where
  "float_msg s = ''could not convert string to float: '' @ py_repr s"

fun py_int :: "'f pylib \<Rightarrow> 'f json \<Rightarrow> exn + int" where
  "py_int L JNull = Inl TypeError"
| "py_int L (JBool b) = Inr (if b then 1 else 0)"
| "py_int L (JInt n) = Inr n"
| "py_int L (JFloat x) = int_of_float L x"
| "py_int L (JStr s) =
     (case py_int_str s of None \<Rightarrow> Inl (ValueError (int_msg s)) | Some n \<Rightarrow> Inr n)"
| "py_int L (JArr xs) = Inl TypeError"
| "py_int L (JObj kvs) = Inl TypeError"

fun py_float :: "'f pylib \<Rightarrow> 'f json \<Rightarrow> exn + 'f" where
  "py_float L JNull = Inl TypeError"
| "py_float L (JBool b) =
     (case float_of_int L (if b then 1 else 0) of None \<Rightarrow> Inl OverflowError | Some x \<Rightarrow> Inr x)"
| "py_float L (JInt n) =
     (case float_of_int L n of None \<Rightarrow> Inl OverflowError | Some x \<Rightarrow> Inr x)"
| "py_float L (JFloat x) = Inr x"
| "py_float L (JStr s) =
     (case float_of_str L s of None \<Rightarrow> Inl (ValueError (float_msg s)) | Some x \<Rightarrow> Inr x)"
| "py_float L (JArr xs) = Inl TypeError"
| "py_float L (JObj kvs) = Inl TypeError"

text \<open>\<^verbatim>\<open>item[key]\<close>: only a dict can be indexed by a string.\<close>

fun getitem :: "'f json \<Rightarrow> string \<Rightarrow> exn + 'f json" where
  "getitem (JObj kvs) k = (case map_of kvs k of None \<Rightarrow> Inl (KeyError k) | Some v \<Rightarrow> Inr v)"
| "getitem v k = Inl TypeError"

section \<open>Timestamps\<close>

text \<open>
  An aware \<^verbatim>\<open>datetime\<close> denotes an instant: its wall-clock reading minus its offset.
  Instants are counted in microseconds from the start of the proleptic Gregorian
  calendar, with the day number of \<^verbatim>\<open>date.toordinal\<close>.
\<close>

definition is_leap :: "nat \<Rightarrow> bool" where
  "is_leap y = (y mod 4 = 0 \<and> (y mod 100 \<noteq> 0 \<or> y mod 400 = 0))"

definition days_before_year :: "nat \<Rightarrow> int" where
  "days_before_year y =
     (let z = int y - 1 in z * 365 + z div 4 - z div 100 + z div 400)"

definition days_before_month :: "nat \<Rightarrow> nat \<Rightarrow> int" where
  "days_before_month y m =
     int ([0, 0, 31, 59, 90, 120, 151, 181, 212, 243, 273, 304, 334] ! (min m 12))
       + (if 2 < m \<and> is_leap y then 1 else 0)"

definition ymd2ord :: "nat \<Rightarrow> nat \<Rightarrow> nat \<Rightarrow> int" where
  "ymd2ord y m d = days_before_year y + days_before_month y m + int d"

definition wall_micros :: "datetime \<Rightarrow> int" where
  "wall_micros d =
     (((ymd2ord (year d) (month d) (day d) * 24 + int (hour d)) * 60 + int (minute d)) * 60
        + int (second d)) * 1000000 + int (microsecond d)"

definition instant :: "datetime \<Rightarrow> int" where
  "instant d = wall_micros d - (case tzinfo d of None \<Rightarrow> 0 | Some off \<Rightarrow> off)"

definition iso_msg :: string where
  "iso_msg = ''fecha_hora debe venir en formato ISO 8601 (ej: 2025-10-14T09:30:00Z)''"

text \<open>
  \<^verbatim>\<open>parse_iso_datetime\<close>. The body is inside \<^verbatim>\<open>try ... except Exception\<close>, so every
  failure, also the \<^verbatim>\<open>AttributeError\<close> of \<^verbatim>\<open>value.replace\<close> on a value that is not a
  string, becomes the one \<^verbatim>\<open>ValueError\<close> with the fixed message.
\<close>

fun parse_iso_datetime :: "'f pylib \<Rightarrow> 'f json \<Rightarrow> exn + datetime" where
  "parse_iso_datetime L (JStr v) =
     (case fromisoformat L (replace_Z v) of
        None \<Rightarrow> Inl (ValueError iso_msg)
      | Some dt \<Rightarrow>
          (if tzinfo dt = None then Inr (dt\<lparr>tzinfo := Some 0\<rparr>) else Inr dt))"
| "parse_iso_datetime L v = Inl (ValueError iso_msg)"

section \<open>The database\<close>

text \<open>
  A \<^verbatim>\<open>Medicion(...)\<close> object as the route builds it, and a row of the table
  \<^verbatim>\<open>mediciones\<close>: the column \<^verbatim>\<open>fecha_hora\<close> is \<^verbatim>\<open>DateTime(timezone=True)\<close>, which
  stores the instant. The state is the table and the ids of the table \<^verbatim>\<open>sensores\<close>,
  which the foreign key of \<^verbatim>\<open>id_sensor\<close> refers to.
\<close>

record 'f medicion =
  id_sensor :: int
  fecha_hora :: datetime
  valor :: 'f

record 'f fila =
  fila_sensor :: int
  fila_instante :: int
  fila_valor :: 'f

record 'f db =
  sensores :: "int list"
  mediciones :: "'f fila list"

definition pk :: "'f fila \<Rightarrow> int \<times> int" where
  "pk r = (fila_sensor r, fila_instante r)"

definition pk_of :: "'f medicion \<Rightarrow> int \<times> int" where
  "pk_of m = (id_sensor m, instant (fecha_hora m))"

definition fila_of :: "'f medicion \<Rightarrow> 'f fila" where
  "fila_of m =
     \<lparr>fila_sensor = id_sensor m, fila_instante = instant (fecha_hora m), fila_valor = valor m\<rparr>"

text \<open>
  \<^verbatim>\<open>db.session.merge(m)\<close>, the upsert by primary key: a row with the key of \<open>m\<close> takes
  the value of \<open>m\<close>; with no such row one is inserted, which the foreign key refuses
  when the sensor does not exist.
\<close>

definition merge :: "int list \<Rightarrow> 'f fila list \<Rightarrow> 'f medicion \<Rightarrow> exn + 'f fila list" where
  "merge sens t m =
     (if pk_of m \<in> set (map pk t)
      then Inr (map (\<lambda>r. if pk r = pk_of m then r\<lparr>fila_valor := valor m\<rparr> else r) t)
      else if id_sensor m \<in> set sens then Inr (t @ [fila_of m])
      else Inl (IntegrityError (id_sensor m)))"

fun merge_all :: "int list \<Rightarrow> 'f fila list \<Rightarrow> 'f medicion list \<Rightarrow> exn + 'f fila list" where
  "merge_all sens t [] = Inr t"
| "merge_all sens t (m # ms) =
     (case merge sens t m of Inl e \<Rightarrow> Inl e | Inr t' \<Rightarrow> merge_all sens t' ms)"

text \<open>
  A \<^verbatim>\<open>select\<close> as the route builds it with \<^verbatim>\<open>where\<close>, \<^verbatim>\<open>order_by\<close> and \<^verbatim>\<open>limit\<close>,
  and its execution by the database (PostgreSQL) and the driver.
\<close>

datatype cond = Sensor_eq int | Fecha_ge int | Fecha_le int

datatype direction = Asc | Desc

record query =
  conds :: "cond list"
  orden :: "direction option"
  limite :: "int option"

fun holds :: "'f fila \<Rightarrow> cond \<Rightarrow> bool" where
  "holds r (Sensor_eq n) = (fila_sensor r = n)"
| "holds r (Fecha_ge t) = (t \<le> fila_instante r)"
| "holds r (Fecha_le t) = (fila_instante r \<le> t)"

definition order_rows :: "direction option \<Rightarrow> 'f fila list \<Rightarrow> 'f fila list" where
  "order_rows d rows =
     (case d of
        None \<Rightarrow> rows
      | Some Asc \<Rightarrow> sort_key fila_instante rows
      | Some Desc \<Rightarrow> rev (sort_key fila_instante rows))"

text \<open>
  The statement as the database runs it. \<^verbatim>\<open>LIMIT\<close> is a \<^verbatim>\<open>bigint\<close>: the database refuses
  a negative count and one from \<open>2 ^ 63\<close> on.
\<close>

definition run_select :: "'f db \<Rightarrow> query \<Rightarrow> exn + 'f fila list" where
  "run_select st q =
     (let rows = order_rows (orden q) (filter (\<lambda>r. list_all (holds r) (conds q)) (mediciones st))
      in case limite q of
           None \<Rightarrow> Inr rows
         | Some n \<Rightarrow>
             if n < 0 \<or> 2 ^ 63 \<le> n then Inl (DataError n) else Inr (take (nat n) rows))"

text \<open>
  The rows come back as \<^verbatim>\<open>Medicion\<close> objects whose \<^verbatim>\<open>fecha_hora\<close> is a \<^verbatim>\<open>datetime\<close>, read
  in UTC: a row whose instant lies before year 1 or after year 9999 cannot be read back,
  and the driver raises. (Such a row can be stored: 0001-01-01T00:00:00+01:00 is an
  instant of the year before year 1.)
\<close>

definition datetime_min :: datetime where
  "datetime_min = \<lparr>year = 1, month = 1, day = 1, hour = 0, minute = 0, second = 0,
                    microsecond = 0, tzinfo = Some 0\<rparr>"

definition datetime_max :: datetime where
  "datetime_max = \<lparr>year = 9999, month = 12, day = 31, hour = 23, minute = 59, second = 59,
                    microsecond = 999999, tzinfo = Some 0\<rparr>"

text \<open>The instants of \<open>datetime_min\<close> and \<open>datetime_max\<close> (lemma \<open>instant_range\<close>).\<close>

definition instant_min :: int where
  "instant_min = 86400000000"

definition instant_max :: int where
  "instant_max = 315537983999999999"

definition legible :: "'f fila \<Rightarrow> bool" where
  "legible r = (instant_min \<le> fila_instante r \<and> fila_instante r \<le> instant_max)"

definition fetch :: "'f pylib \<Rightarrow> 'f fila list \<Rightarrow> exn + 'f fila list" where
  "fetch L rows =
     (case filter (\<lambda>r. \<not> legible r) rows of
        [] \<Rightarrow> Inr rows
      | r # _ \<Rightarrow> Inl (fetch_error L (fila_instante r)))"

text \<open>\<^verbatim>\<open>db.session.execute(q).scalars().all()\<close>.\<close>

definition execute :: "'f pylib \<Rightarrow> 'f db \<Rightarrow> query \<Rightarrow> exn + 'f fila list" where
  "execute L st q = (case run_select st q of Inl e \<Rightarrow> Inl e | Inr rows \<Rightarrow> fetch L rows)"

section \<open>The routes\<close>

text \<open>
  A response is what \<^verbatim>\<open>ok\<close> or \<^verbatim>\<open>fail\<close> returns (the body's fields and the status),
  or an exception that no handler of the route catches. The rows of a query are kept as
  rows: their rendering with \<^verbatim>\<open>isoformat\<close> is not modelled.
\<close>

datatype 'f data = Insertados nat | Filas "'f fila list"

datatype 'f respuesta =
    Ok "'f data" nat
  | Fail string nat "exn option"
  | Unhandled exn

definition item_msg :: "nat \<Rightarrow> string \<Rightarrow> string" where
  "item_msg i e = [CHR 0xCD] @ ''tem #'' @ show_nat i @ '' inv'' @ [CHR 0xE1] @ ''lido: '' @ e"

definition leer_item :: "'f pylib \<Rightarrow> 'f json \<Rightarrow> exn + 'f medicion" where
  "leer_item L item =
     (case getitem item ''id_sensor'' of Inl e \<Rightarrow> Inl e | Inr a \<Rightarrow>
      case py_int L a of Inl e \<Rightarrow> Inl e | Inr n \<Rightarrow>
      case getitem item ''fecha_hora'' of Inl e \<Rightarrow> Inl e | Inr b \<Rightarrow>
      case parse_iso_datetime L b of Inl e \<Rightarrow> Inl e | Inr dt \<Rightarrow>
      case getitem item ''valor'' of Inl e \<Rightarrow> Inl e | Inr c \<Rightarrow>
      case py_float L c of Inl e \<Rightarrow> Inl e | Inr x \<Rightarrow>
      Inr \<lparr>id_sensor = n, fecha_hora = dt, valor = x\<rparr>)"

text \<open>
  The validation loop of \<^verbatim>\<open>crear_mediciones\<close>, from position \<open>i\<close>: the handler
  catches \<^verbatim>\<open>KeyError\<close> and \<^verbatim>\<open>ValueError\<close> only.
\<close>

fun validar ::
  "'f pylib \<Rightarrow> nat \<Rightarrow> 'f json list \<Rightarrow> 'f medicion list \<Rightarrow> 'f respuesta + 'f medicion list"
where
  "validar L i [] acc = Inr acc"
| "validar L i (item # items) acc =
     (case leer_item L item of
        Inl (KeyError k) \<Rightarrow> Inl (Fail (item_msg i (py_repr k)) 400 None)
      | Inl (ValueError m) \<Rightarrow> Inl (Fail (item_msg i m) 400 None)
      | Inl e \<Rightarrow> Inl (Unhandled e)
      | Inr m \<Rightarrow> validar L (Suc i) items (acc @ [m]))"

definition json_msg :: string where
  "json_msg = ''JSON inv'' @ [CHR 0xE1] @ ''lido o vac'' @ [CHR 0xED] @ ''o''"

definition guardar_msg :: string where
  "guardar_msg = ''No se pudieron guardar las mediciones''"

definition items_of :: "'f json \<Rightarrow> 'f json list" where
  "items_of payload = (case payload of JArr xs \<Rightarrow> xs | _ \<Rightarrow> [payload])"

definition crear_mediciones :: "'f pylib \<Rightarrow> 'f db \<Rightarrow> 'f json \<Rightarrow> 'f respuesta \<times> 'f db" where
  "crear_mediciones L st payload =
     (case payload of
        JNull \<Rightarrow> (Fail json_msg 400 None, st)
      | _ \<Rightarrow>
         (case validar L 1 (items_of payload) [] of
            Inl r \<Rightarrow> (r, st)
          | Inr ms \<Rightarrow>
             (case merge_all (sensores st) (mediciones st) ms of
                Inl e \<Rightarrow> (Fail guardar_msg 400 (Some e), st)
              | Inr t \<Rightarrow> (Ok (Insertados (length ms)) 201, st\<lparr>mediciones := t\<rparr>))))"

text \<open>
  \<^verbatim>\<open>request.args\<close> and its \<^verbatim>\<open>get(key, default, type=int)\<close>: the first value of the key,
  converted; a missing key or a failed conversion gives the default.
\<close>

type_synonym args = "(string \<times> string) list"

definition args_get :: "args \<Rightarrow> string \<Rightarrow> string option" where
  "args_get a k = map_of a k"

definition args_get_int :: "args \<Rightarrow> string \<Rightarrow> int option \<Rightarrow> int option" where
  "args_get_int a k d =
     (case map_of a k of
        None \<Rightarrow> d
      | Some v \<Rightarrow> (case py_int_str v of None \<Rightarrow> d | Some n \<Rightarrow> Some n))"

definition obligatorio_msg :: string where
  "obligatorio_msg =
     ''Par'' @ [CHR 0xE1] @ ''metro '' @ [CHR 0x27] @ ''id_sensor'' @ [CHR 0x27] @ '' es obligatorio''"

definition consultar_msg :: string where
  "consultar_msg = ''Error al consultar mediciones''"

text \<open>\<^verbatim>\<open>if desde: q = q.where(... parse_iso_datetime(desde))\<close>, for either bound.\<close>

definition add_bound ::
  "'f pylib \<Rightarrow> (int \<Rightarrow> cond) \<Rightarrow> string option \<Rightarrow> query \<Rightarrow> exn + query"
where
  "add_bound L mk v q =
     (case v of
        None \<Rightarrow> Inr q
      | Some s \<Rightarrow>
          if s = [] then Inr q
          else (case parse_iso_datetime L (JStr s) of
                  Inl e \<Rightarrow> Inl e
                | Inr dt \<Rightarrow> Inr (q\<lparr>conds := conds q @ [mk (instant dt)]\<rparr>)))"

definition build_query :: "'f pylib \<Rightarrow> int \<Rightarrow> args \<Rightarrow> exn + query" where
  "build_query L n a =
     (let limit = args_get_int a ''limit'' (Some 100);
          order = lower (case args_get a ''order'' of None \<Rightarrow> ''desc'' | Some v \<Rightarrow> v);
          desde = args_get a ''desde'';
          hasta = args_get a ''hasta'';
          q = \<lparr>conds = [Sensor_eq n], orden = None, limite = None\<rparr>
      in case add_bound L Fecha_ge desde q of Inl e \<Rightarrow> Inl e | Inr q1 \<Rightarrow>
         case add_bound L Fecha_le hasta q1 of Inl e \<Rightarrow> Inl e | Inr q2 \<Rightarrow>
         Inr (q2\<lparr>orden := Some (if order = ''asc'' then Asc else Desc), limite := limit\<rparr>))"

definition consultar_mediciones :: "'f pylib \<Rightarrow> 'f db \<Rightarrow> args \<Rightarrow> 'f respuesta" where
  "consultar_mediciones L st a =
     (case args_get_int a ''id_sensor'' None of
        None \<Rightarrow> Fail obligatorio_msg 400 None
      | Some n \<Rightarrow>
          if n = 0 then Fail obligatorio_msg 400 None
          else (case (case build_query L n a of Inl e \<Rightarrow> Inl e | Inr q \<Rightarrow> execute L st q) of
                  Inr rows \<Rightarrow> Ok (Filas rows) 200
                | Inl (ValueError m) \<Rightarrow> Fail m 400 None
                | Inl e \<Rightarrow> Fail consultar_msg 400 (Some e)))"

section \<open>A library instance for the examples\<close>

text \<open>
  The theorems below hold for every library \<open>L\<close>. The examples run on this instance:
  timestamps of the form \<^verbatim>\<open>YYYY-MM-DD(T| )HH:MM:SS[(+|-)HH:MM]\<close>, which every version of
  \<^verbatim>\<open>fromisoformat\<close> reads, and floating-point values read as the rationals they
  denote, from plain decimal literals.
\<close>

definition two_digits :: "string \<Rightarrow> nat option" where
  "two_digits s =
     (case s of
        [a, b] \<Rightarrow>
          if is_digit a \<and> is_digit b then Some (nat (10 * digit_val a + digit_val b)) else None
      | _ \<Rightarrow> None)"

definition four_digits :: "string \<Rightarrow> nat option" where
  "four_digits s =
     (case (two_digits (take 2 s), two_digits (drop 2 s)) of
        (Some a, Some b) \<Rightarrow> Some (100 * a + b)
      | _ \<Rightarrow> None)"

definition days_in_month :: "nat \<Rightarrow> nat \<Rightarrow> nat" where
  "days_in_month y m =
     (if m = 2 then (if is_leap y then 29 else 28)
      else if m \<in> {4, 6, 9, 11} then 30 else 31)"

definition ref_offset :: "string \<Rightarrow> int option option" where
  "ref_offset s =
     (if s = [] then Some None
      else if length s = 6 \<and> (s ! 0 = CHR ''+'' \<or> s ! 0 = CHR ''-'') \<and> s ! 3 = CHR '':'' then
        (case (two_digits (take 2 (drop 1 s)), two_digits (drop 4 s)) of
           (Some h, Some m) \<Rightarrow>
             if h < 24 \<and> m < 60
             then Some (Some ((if s ! 0 = CHR ''-'' then -1 else 1) * (int h * 60 + int m) * 60000000))
             else None
         | _ \<Rightarrow> None)
      else None)"

definition ref_fromisoformat :: "string \<Rightarrow> datetime option" where
  "ref_fromisoformat s =
     (if 19 \<le> length s \<and> s ! 4 = CHR ''-'' \<and> s ! 7 = CHR ''-''
         \<and> (s ! 10 = CHR ''T'' \<or> s ! 10 = CHR '' '') \<and> s ! 13 = CHR '':'' \<and> s ! 16 = CHR '':'' then
        (case (four_digits (take 4 s), two_digits (take 2 (drop 5 s)),
               two_digits (take 2 (drop 8 s)), two_digits (take 2 (drop 11 s)),
               two_digits (take 2 (drop 14 s)), two_digits (take 2 (drop 17 s)),
               ref_offset (drop 19 s)) of
           (Some y, Some mo, Some d, Some h, Some mi, Some sec, Some off) \<Rightarrow>
             if 1 \<le> y \<and> 1 \<le> mo \<and> mo \<le> 12 \<and> 1 \<le> d \<and> d \<le> days_in_month y mo
                \<and> h < 24 \<and> mi < 60 \<and> sec < 60
             then Some \<lparr>year = y, month = mo, day = d, hour = h, minute = mi, second = sec,
                        microsecond = 0, tzinfo = off\<rparr>
             else None
         | _ \<Rightarrow> None)
      else None)"

fun frac_digits :: "rat \<Rightarrow> rat \<Rightarrow> string \<Rightarrow> rat option" where
  "frac_digits w acc [] = Some acc"
| "frac_digits w acc (c # cs) =
     (if is_digit c then frac_digits (w / 10) (acc + w * of_int (digit_val c)) cs else None)"

definition ref_decimal :: "string \<Rightarrow> rat option" where
  "ref_decimal s =
     (let a = takeWhile (\<lambda>c. c \<noteq> CHR ''.'') s; b = drop (Suc (length a)) s
      in case int_digits False 0 a of
           None \<Rightarrow> None
         | Some n \<Rightarrow> frac_digits (1 / 10) (of_int n) b)"

definition ref_float_of_str :: "string \<Rightarrow> rat option" where
  "ref_float_of_str s =
     (case strip s of
        [] \<Rightarrow> None
      | c # cs \<Rightarrow>
          if c = CHR ''-'' then map_option uminus (ref_decimal cs)
          else if c = CHR ''+'' then ref_decimal cs
          else ref_decimal (c # cs))"

definition ref_lib :: "rat pylib" where
  "ref_lib =
     \<lparr>fromisoformat = ref_fromisoformat,
      float_of_str = ref_float_of_str,
      float_of_int = (\<lambda>n. Some (of_int n)),
      int_of_float = (\<lambda>x. Inr (if 0 \<le> x then \<lfloor>x\<rfloor> else \<lceil>x\<rceil>)),
      fetch_error = DataError\<rparr>"

definition db0 :: "rat db" where
  "db0 = \<lparr>sensores = [1], mediciones = []\<rparr>"

section \<open>Notions of the specification\<close>



fun last_valor :: "int \<times> int \<Rightarrow> 'f medicion list \<Rightarrow> 'f option" where
  "last_valor k [] = None"
| "last_valor k (m # ms) =
     (case last_valor k ms of
        Some v \<Rightarrow> Some v
      | None \<Rightarrow> if pk_of m = k then Some (valor m) else None)"


text \<open>Ingest as a function on states, and its repetition.\<close>

definition ingest :: "'f pylib \<Rightarrow> 'f json \<Rightarrow> 'f db \<Rightarrow> 'f db" where
  "ingest L payload st = snd (crear_mediciones L st payload)"

text \<open>What the upsert does to one row (used in the proofs).\<close>

definition upd :: "'f medicion \<Rightarrow> 'f fila \<Rightarrow> 'f fila" where
  "upd m r = (if pk r = pk_of m then r\<lparr>fila_valor := valor m\<rparr> else r)"

section \<open>Example data\<close>

text \<open>
  A reading as a JSON object, a timestamp in UTC, two batches for the state \<open>db0\<close>
  (the second one names a sensor that does not exist), and a state with one row, for
  sensor 1 at 2025-01-01T00:00:00Z.
\<close>

definition lectura :: "int \<Rightarrow> string \<Rightarrow> rat \<Rightarrow> rat json" where
  "lectura n ts v = JObj [(''id_sensor'', JInt n), (''fecha_hora'', JStr ts), (''valor'', JFloat v)]"

definition dt_utc :: "nat \<Rightarrow> nat \<Rightarrow> nat \<Rightarrow> nat \<Rightarrow> nat \<Rightarrow> nat \<Rightarrow> datetime" where
  "dt_utc y mo d h mi s =
     \<lparr>year = y, month = mo, day = d, hour = h, minute = mi, second = s, microsecond = 0,
      tzinfo = Some 0\<rparr>"

definition lote_ok :: "rat json" where
  "lote_ok = JArr [lectura 1 ''2025-01-01T00:00:00Z'' 5, lectura 1 ''2025-01-01T01:00:00+01:00'' 9]"


definition db1 :: "rat db" where
  "db1 = \<lparr>sensores = [1],
          mediciones = [\<lparr>fila_sensor = 1, fila_instante = 63871372800000000, fila_valor = 5\<rparr>]\<rparr>"

text \<open>
  What the handler of the validation loop answers at position \<open>i\<close>, and whether a text
  occurs in another.
\<close>

definition handler :: "nat \<Rightarrow> exn \<Rightarrow> 'f respuesta" where
  "handler i e =
     (case e of
        KeyError k \<Rightarrow> Fail (item_msg i (py_repr k)) 400 None
      | ValueError m \<Rightarrow> Fail (item_msg i m) 400 None
      | _ \<Rightarrow> Unhandled e)"

fun starts_with :: "string \<Rightarrow> string \<Rightarrow> bool" where
  "starts_with [] s = True"
| "starts_with (p # ps) [] = False"
| "starts_with (p # ps) (c # cs) = (p = c \<and> starts_with ps cs)"

fun contains :: "string \<Rightarrow> string \<Rightarrow> bool" where
  "contains p [] = (p = [])"
| "contains p (c # cs) = (starts_with p (c # cs) \<or> contains p cs)"

text \<open>
  A batch whose second reading has a null \<^verbatim>\<open>id_sensor\<close>, one whose second reading has an
  unreadable timestamp, and the naive reading of 2025-10-14T09:30:00.
\<close>

definition lote_null :: "rat json" where
  "lote_null =
     JArr [lectura 1 ''2025-01-01T00:00:00Z'' 5,
           JObj [(''id_sensor'', JNull), (''fecha_hora'', JStr ''2025-01-01T00:00:00Z''),
                 (''valor'', JFloat 9)]]"

definition lote_ts :: "rat json" where
  "lote_ts = JArr [lectura 1 ''2025-01-01T00:00:00Z'' 5, lectura 1 ''ayer'' 9]"

definition naive_ej :: datetime where
  "naive_ej = \<lparr>year = 2025, month = 10, day = 14, hour = 9, minute = 30, second = 0,
               microsecond = 0, tzinfo = None\<rparr>"

text \<open>
  The query in the words of the specification. \<open>bound_is L v b\<close>: the optional parameter
  \<open>v\<close> gives the bound \<open>b\<close> (none when it is absent or empty, the instant of its
  timestamp otherwise). \<open>spec_order\<close>: descending unless \<^verbatim>\<open>asc\<close> is asked for, in any
  letter case. \<open>matches\<close>: the reading is of the sensor and within the inclusive bounds.
  \<open>sorted_by\<close>: the rows are in ascending, or descending, order of their instants.
\<close>

definition exito :: "'f respuesta \<Rightarrow> bool" where
  "exito r = (case r of Ok d c \<Rightarrow> True | _ \<Rightarrow> False)"

definition bound_is :: "'f pylib \<Rightarrow> string option \<Rightarrow> int option \<Rightarrow> bool" where
  "bound_is L v b =
     (case v of
        None \<Rightarrow> b = None
      | Some s \<Rightarrow>
          if s = [] then b = None
          else (case parse_iso_datetime L (JStr s) of
                  Inl e \<Rightarrow> False
                | Inr dt \<Rightarrow> b = Some (instant dt)))"

definition spec_order :: "args \<Rightarrow> direction" where
  "spec_order a =
     (case args_get a ''order'' of
        None \<Rightarrow> Desc
      | Some v \<Rightarrow> if lower v = ''asc'' then Asc else Desc)"

definition matches :: "int \<Rightarrow> int option \<Rightarrow> int option \<Rightarrow> 'f fila \<Rightarrow> bool" where
  "matches n lo hi r =
     (fila_sensor r = n
      \<and> (case lo of None \<Rightarrow> True | Some t \<Rightarrow> t \<le> fila_instante r)
      \<and> (case hi of None \<Rightarrow> True | Some t \<Rightarrow> fila_instante r \<le> t))"

definition sorted_by :: "direction \<Rightarrow> 'f fila list \<Rightarrow> bool" where
  "sorted_by d rows =
     (case d of
        Asc \<Rightarrow> sorted_wrt (\<le>) (map fila_instante rows)
      | Desc \<Rightarrow> sorted_wrt (\<ge>) (map fila_instante rows))"

definition bound_conds :: "(int \<Rightarrow> cond) \<Rightarrow> int option \<Rightarrow> cond list" where
  "bound_conds mk b = (case b of None \<Rightarrow> [] | Some t \<Rightarrow> [mk t])"

text \<open>
  A state with readings of sensor 1 at 00:00, 01:00 and 02:00 of 2025-01-01 (UTC), stored
  out of order, and one of sensor 2; and the parameters of a bounded query.
\<close>

definition fila_ej :: "int \<Rightarrow> rat \<Rightarrow> rat fila" where
  "fila_ej t v = \<lparr>fila_sensor = 1, fila_instante = t, fila_valor = v\<rparr>"

definition db3 :: "rat db" where
  "db3 = \<lparr>sensores = [1, 2],
          mediciones = [fila_ej 63871376400000000 2, fila_ej 63871372800000000 1,
                        \<lparr>fila_sensor = 2, fila_instante = 63871376400000000, fila_valor = 7\<rparr>,
                        fila_ej 63871380000000000 3]\<rparr>"

definition args_ej :: args where
  "args_ej = [(''id_sensor'', ''1''), (''desde'', ''2025-01-01T01:00:00Z''),
              (''hasta'', ''2025-01-01T02:00:00Z''), (''limit'', ''1'')]"

section \<open>The mandatory sensor filter of the query\<close>

text \<open>
  C8: a query whose \<^verbatim>\<open>id_sensor\<close> is absent, or converts to zero, fails with the
  missing-parameter message and status 400; no rows are returned.
\<close>

theorem consultar_sensor_obligatorio:
  assumes "args_get a ''id_sensor'' = None
           \<or> (\<exists>v. args_get a ''id_sensor'' = Some v \<and> py_int_str v = Some 0)"
  shows "consultar_mediciones L st a = Fail obligatorio_msg 400 None"
  using assms
  by (auto simp: consultar_mediciones_def args_get_def args_get_int_def)

theorem consultar_sensor_obligatorio_witness:
  "consultar_mediciones ref_lib db0 [] = Fail obligatorio_msg 400 None
   \<and> consultar_mediciones ref_lib db0 [(''id_sensor'', ''0'')] = Fail obligatorio_msg 400 None"
proof -
  have zero: "py_int_str ''0'' = Some 0"
    by code_simp
  have absent: "args_get [] ''id_sensor'' = None"
    by (simp add: args_get_def)
  have given: "args_get [(''id_sensor'', ''0'')] ''id_sensor'' = Some ''0''"
    by (simp add: args_get_def)
  show ?thesis
    using consultar_sensor_obligatorio [of "[]" ref_lib db0] absent
      consultar_sensor_obligatorio [of "[(''id_sensor'', ''0'')]" ref_lib db0] given zero
    by simp
qed

text \<open>
  C10: when \<^verbatim>\<open>id_sensor\<close> is present and its conversion to an integer fails, the
  conversion yields \<open>None\<close> and the query fails with the same response as a query with no
  \<^verbatim>\<open>id_sensor\<close> at all.
\<close>

theorem consultar_sensor_no_entero:
  assumes "args_get a ''id_sensor'' = Some v" and "py_int_str v = None"
  shows "args_get_int a ''id_sensor'' None = None
         \<and> consultar_mediciones L st a = Fail obligatorio_msg 400 None
         \<and> consultar_mediciones L st a = consultar_mediciones L st []"
  using assms
  by (simp add: consultar_mediciones_def args_get_def args_get_int_def)

theorem consultar_sensor_no_entero_witness:
  "args_get_int [(''id_sensor'', ''abc'')] ''id_sensor'' None = None
   \<and> consultar_mediciones ref_lib db0 [(''id_sensor'', ''abc'')] = Fail obligatorio_msg 400 None
   \<and> consultar_mediciones ref_lib db0 [(''id_sensor'', ''abc'')]
       = consultar_mediciones ref_lib db0 []"
proof -
  have bad: "py_int_str ''abc'' = None"
    by code_simp
  have given: "args_get [(''id_sensor'', ''abc'')] ''id_sensor'' = Some ''abc''"
    by (simp add: args_get_def)
  show ?thesis
    by (rule consultar_sensor_no_entero [OF given bad, of ref_lib db0])
qed

section \<open>The upsert\<close>

lemma pk_upd [simp]: "pk (upd m r) = pk r"
  by (simp add: upd_def pk_def)

lemma pk_fila_of [simp]: "pk (fila_of m) = pk_of m"
  by (simp add: pk_def pk_of_def fila_of_def)

lemma merge_present:
  "pk_of m \<in> set (map pk t) \<Longrightarrow> merge sens t m = Inr (map (upd m) t)"
  by (simp add: merge_def upd_def)

lemma merge_keys:
  assumes "merge sens t m = Inr t'"
  shows "map pk t' = (if pk_of m \<in> set (map pk t) then map pk t else map pk t @ [pk_of m])"
proof -
  have "map pk (map (\<lambda>r. if pk r = pk_of m then r\<lparr>fila_valor := valor m\<rparr> else r) t) = map pk t"
    by (induction t) (auto simp: pk_def)
  moreover have "pk (fila_of m) = pk_of m"
    by (simp add: pk_def pk_of_def fila_of_def)
  ultimately show ?thesis
    using assms by (auto simp: merge_def split: if_splits)
qed


lemma merge_key_set:
  assumes "merge sens t m = Inr t'"
  shows "set (map pk t') = insert (pk_of m) (set (map pk t))"
  unfolding merge_keys [OF assms] by auto


lemma merge_all_key_set:
  "merge_all sens t ms = Inr t' \<Longrightarrow> set (map pk t') = set (map pk t) \<union> pk_of ` set ms"
proof (induction ms arbitrary: t)
  case Nil
  then show ?case by simp
next
  case (Cons m ms)
  then obtain t1 where 1: "merge sens t m = Inr t1" and 2: "merge_all sens t1 ms = Inr t'"
    by (auto split: sum.splits)
  show ?case
    using Cons.IH [OF 2] merge_key_set [OF 1] by auto
qed



lemma merge_value:
  assumes "merge sens t m = Inr t'" and "r \<in> set t'" and "pk r = pk_of m"
  shows "fila_valor r = valor m"
proof (cases "pk_of m \<in> set (map pk t)")
  case True
  then have "t' = map (upd m) t"
    using assms(1) by (simp add: merge_present)
  then obtain r0 where "r = upd m r0"
    using assms(2) by auto
  then show ?thesis
    using assms(3) by (simp add: upd_def split: if_splits)
next
  case False
  then have "t' = t @ [fila_of m]"
    using assms(1) by (simp add: merge_def split: if_splits)
  moreover have "r \<notin> set t"
    using False assms(3) by (metis imageI set_map)
  ultimately show ?thesis
    using assms(2) by (simp add: fila_of_def)
qed

lemma merge_other:
  assumes "merge sens t m = Inr t'" and "r \<in> set t'" and "pk r \<noteq> pk_of m"
  shows "r \<in> set t"
proof (cases "pk_of m \<in> set (map pk t)")
  case True
  then have "t' = map (upd m) t"
    using assms(1) by (simp add: merge_present)
  then obtain r0 where r0: "r0 \<in> set t" "r = upd m r0"
    using assms(2) by auto
  then have "pk r0 \<noteq> pk_of m"
    using assms(3) by simp
  then have "upd m r0 = r0"
    by (simp add: upd_def)
  then show ?thesis
    using r0 by simp
next
  case False
  then have "t' = t @ [fila_of m]"
    using assms(1) by (simp add: merge_def split: if_splits)
  moreover have "pk (fila_of m) = pk_of m"
    by (simp add: pk_def pk_of_def fila_of_def)
  ultimately show ?thesis
    using assms(2,3) by auto
qed

lemma merge_all_value:
  "merge_all sens t ms = Inr t' \<Longrightarrow> r \<in> set t' \<Longrightarrow>
   (case last_valor (pk r) ms of Some v \<Rightarrow> fila_valor r = v | None \<Rightarrow> r \<in> set t)"
proof (induction ms arbitrary: t)
  case Nil
  then show ?case by simp
next
  case (Cons m ms)
  then obtain t1 where 1: "merge sens t m = Inr t1" and 2: "merge_all sens t1 ms = Inr t'"
    by (auto split: sum.splits)
  show ?case
    using Cons.IH [OF 2 Cons.prems(2)] merge_value [OF 1, of r] merge_other [OF 1, of r]
    by (auto split: option.splits)
qed

lemma upd_all:
  "foldl (\<lambda>r m. upd m r) r ms
   = (case last_valor (pk r) ms of None \<Rightarrow> r | Some v \<Rightarrow> r\<lparr>fila_valor := v\<rparr>)"
proof (induction ms arbitrary: r)
  case Nil
  then show ?case by simp
next
  case (Cons m ms)
  show ?case
    by (simp add: Cons.IH) (auto simp: upd_def pk_def split: option.splits)
qed

lemma merge_all_present:
  "pk_of ` set ms \<subseteq> set (map pk t) \<Longrightarrow>
   merge_all sens t ms = Inr (map (\<lambda>r. foldl (\<lambda>r m. upd m r) r ms) t)"
proof (induction ms arbitrary: t)
  case Nil
  then show ?case by simp
next
  case (Cons m ms)
  have "pk_of ` set ms \<subseteq> set (map pk (map (upd m) t))"
    using Cons.prems by (auto simp: comp_def)
  from Cons.IH [OF this] show ?case
    using Cons.prems by (simp add: merge_present comp_def)
qed

lemma merge_all_again:
  assumes "merge_all sens t ms = Inr t'"
  shows "merge_all sens t' ms = Inr t'"
proof -
  have keys: "pk_of ` set ms \<subseteq> set (map pk t')"
    using merge_all_key_set [OF assms] by auto
  have "map (\<lambda>r. foldl (\<lambda>r m. upd m r) r ms) t' = t'"
  proof (rule map_idI)
    fix r assume "r \<in> set t'"
    from merge_all_value [OF assms this] show "foldl (\<lambda>r m. upd m r) r ms = r"
      by (auto simp: upd_all split: option.splits)
  qed
  with merge_all_present [OF keys, of sens] show ?thesis by simp
qed


section \<open>Validation and persistence of a batch\<close>




lemma crear_not_null:
  "payload \<noteq> JNull \<Longrightarrow>
   crear_mediciones L st payload =
     (case validar L 1 (items_of payload) [] of
        Inl r \<Rightarrow> (r, st)
      | Inr ms \<Rightarrow>
         (case merge_all (sensores st) (mediciones st) ms of
            Inl e \<Rightarrow> (Fail guardar_msg 400 (Some e), st)
          | Inr t \<Rightarrow> (Ok (Insertados (length ms)) 201, st\<lparr>mediciones := t\<rparr>)))"
  by (cases payload) (simp_all add: crear_mediciones_def)



lemma ingest_twice: "ingest L p (ingest L p st) = ingest L p st"
proof (cases "p = JNull")
  case True
  then show ?thesis by (simp add: ingest_def crear_mediciones_def)
next
  case False
  show ?thesis
  proof (cases "validar L 1 (items_of p) []")
    case (Inl r)
    then show ?thesis
      using False by (simp add: ingest_def crear_not_null)
  next
    case (Inr ms)
    show ?thesis
    proof (cases "merge_all (sensores st) (mediciones st) ms")
      case (Inl e)
      then show ?thesis
        using False Inr by (simp add: ingest_def crear_not_null)
    next
      case t: (Inr t)
      have 1: "ingest L p st = st\<lparr>mediciones := t\<rparr>"
        using False Inr t by (simp add: ingest_def crear_not_null)
      have "ingest L p (st\<lparr>mediciones := t\<rparr>) = st\<lparr>mediciones := t\<rparr>"
        using False Inr merge_all_again [OF t]
        by (simp add: ingest_def crear_not_null)
      with 1 show ?thesis by simp
    qed
  qed
qed

subsection \<open>Query results have distinct identities\<close>


lemma instant_range: "instant datetime_min = instant_min \<and> instant datetime_max = instant_max"
  by (simp add: instant_def wall_micros_def ymd2ord_def days_before_year_def
        days_before_month_def is_leap_def datetime_min_def datetime_max_def
        instant_min_def instant_max_def)





section \<open>Identity of a reading\<close>




section \<open>Idempotence of ingest\<close>

text \<open>
  C2: after one ingest of a payload, ingesting the same payload any number of further
  times leaves the state as the first ingest left it. It holds for every payload and
  every state, also when the ingest is refused.
\<close>

theorem ingest_idempotent: "(ingest L p ^^ n) (ingest L p st) = ingest L p st"
  by (induction n) (simp_all add: ingest_twice)

theorem ingest_idempotent_witness:
  "(ingest ref_lib lote_ok ^^ 3) (ingest ref_lib lote_ok db0) = ingest ref_lib lote_ok db0"
  by (rule ingest_idempotent)

section \<open>Atomic persistence\<close>





section \<open>Rejection of an invalid item\<close>

lemma validar_fails_at:
  assumes "list_all2 (\<lambda>item m. leer_item L item = Inr m) pre ms"
    and "leer_item L item = Inl e"
  shows "validar L i (pre @ item # rest) acc = Inl (handler (i + length pre) e)"
  using assms(1)
proof (induction pre ms arbitrary: i acc rule: list_all2_induct)
  case Nil
  then show ?case
    using assms(2) by (cases e) (simp_all add: handler_def)
next
  case (Cons x pre m ms)
  then show ?case by simp
qed

lemma validar_state:
  "snd (crear_mediciones L st payload) = st \<or> (\<exists>ms. validar L 1 (items_of payload) [] = Inr ms)"
proof (cases "payload = JNull")
  case True
  then show ?thesis by (simp add: crear_mediciones_def)
next
  case False
  then show ?thesis
    by (cases "validar L 1 (items_of payload) []") (simp_all add: crear_not_null)
qed

lemma crear_item_invalido:
  assumes "list_all2 (\<lambda>item m. leer_item L item = Inr m) pre ms"
    and "leer_item L item = Inl e"
  shows "crear_mediciones L st (JArr (pre @ item # rest)) = (handler (Suc (length pre)) e, st)"
  using validar_fails_at [OF assms, of 1 rest "[]"]
  by (simp add: crear_mediciones_def items_of_def)

text \<open>
  C3: the batch of a valid reading followed by a reading whose \<^verbatim>\<open>id_sensor\<close> is null.
  \<^verbatim>\<open>int(None)\<close> raises \<^verbatim>\<open>TypeError\<close>, which the handler of the validation loop does not
  catch: the route ends in the exception, with the state unchanged and no response that
  names item 2. (For an item that fails with \<^verbatim>\<open>KeyError\<close> or \<^verbatim>\<open>ValueError\<close>,
  \<open>crear_item_invalido\<close> gives the response that names it.)
\<close>

theorem crear_null_no_capturado: "crear_mediciones ref_lib db0 lote_null = (Unhandled TypeError, db0)"
  by code_simp

section \<open>The timestamp normalizer\<close>

lemma parse_error: "parse_iso_datetime L v = Inl e \<Longrightarrow> e = ValueError iso_msg"
  by (cases v) (auto split: option.splits if_splits)

lemma add_bound_error: "add_bound L mk v q = Inl e \<Longrightarrow> e = ValueError iso_msg"
  by (auto simp: add_bound_def split: option.splits if_splits sum.splits dest: parse_error)

lemma add_bound_bad:
  assumes "parse_iso_datetime L (JStr s) = Inl e" and "s \<noteq> []"
  shows "add_bound L mk (Some s) q = Inl (ValueError iso_msg)"
proof -
  have "parse_iso_datetime L (JStr s) = Inl (ValueError iso_msg)"
    using assms(1) parse_error [OF assms(1)] by simp
  then show ?thesis
    using assms(2) by (simp add: add_bound_def del: parse_iso_datetime.simps)
qed

lemma build_query_bad:
  assumes "parse_iso_datetime L (JStr s) = Inl e" and "s \<noteq> []"
    and "args_get a ''desde'' = Some s \<or> args_get a ''hasta'' = Some s"
  shows "build_query L n a = Inl (ValueError iso_msg)"
proof (cases "args_get a ''desde'' = Some s")
  case True
  then show ?thesis
    using add_bound_bad [OF assms(1,2)] by (simp add: build_query_def Let_def)
next
  case False
  then have h: "args_get a ''hasta'' = Some s"
    using assms(3) by simp
  show ?thesis
  proof (cases "add_bound L Fecha_ge (args_get a ''desde'')
                  \<lparr>conds = [Sensor_eq n], orden = None, limite = None\<rparr>")
    case (Inl e')
    then show ?thesis
      using add_bound_error [OF Inl] by (simp add: build_query_def Let_def)
  next
    case (Inr q1)
    then show ?thesis
      using h add_bound_bad [OF assms(1,2)] by (simp add: build_query_def Let_def)
  qed
qed

lemma iso_msg_guidance: "contains ''ISO 8601'' iso_msg"
  by code_simp

lemma replace_Z_idem: "replace_Z (replace_Z s) = replace_Z s"
  by (induction s) auto

lemma replace_Z_append: "replace_Z (s @ t) = replace_Z s @ replace_Z t"
  by (induction s) auto

lemma parse_ayer: "parse_iso_datetime ref_lib (JStr ''ayer'') = Inl (ValueError iso_msg)"
  by code_simp

lemma item_read5: "leer_item ref_lib (lectura 1 ''2025-01-01T00:00:00Z'' 5)
    = Inr \<lparr>id_sensor = 1, fecha_hora = dt_utc 2025 1 1 0 0 0, valor = 5\<rparr>"
  by code_simp

lemma from_naive: "fromisoformat ref_lib (replace_Z ''2025-10-14T09:30:00'') = Some naive_ej"
  by code_simp

text \<open>
  C9, as the code has it: whenever \<^verbatim>\<open>parse_iso_datetime\<close> fails, the error is the
  \<^verbatim>\<open>ValueError\<close> with one fixed message, which names the expected format (ISO 8601,
  with an example) and does not contain the input. A query whose \<^verbatim>\<open>desde\<close> or
  \<^verbatim>\<open>hasta\<close> is such a text answers with that message and status 400; an ingest whose
  first invalid item has such a timestamp answers 400 with the message for that item,
  and the state is unchanged.
\<close>

theorem timestamp_invalido:
  assumes "parse_iso_datetime L v = Inl e"
  shows "e = ValueError iso_msg \<and> contains ''ISO 8601'' iso_msg
       \<and> (\<forall>s a n st. v = JStr s \<and> s \<noteq> [] \<and> args_get_int a ''id_sensor'' None = Some n \<and> n \<noteq> 0
                    \<and> (args_get a ''desde'' = Some s \<or> args_get a ''hasta'' = Some s) \<longrightarrow>
             consultar_mediciones L st a = Fail iso_msg 400 None)
       \<and> (\<forall>pre ms item rest u n st.
             list_all2 (\<lambda>item m. leer_item L item = Inr m) pre ms
             \<and> getitem item ''id_sensor'' = Inr u \<and> py_int L u = Inr n
             \<and> getitem item ''fecha_hora'' = Inr v \<longrightarrow>
             crear_mediciones L st (JArr (pre @ item # rest))
               = (Fail (item_msg (Suc (length pre)) iso_msg) 400 None, st))"
proof (intro conjI allI impI)
  show e: "e = ValueError iso_msg"
    using assms by (rule parse_error)
  show "contains ''ISO 8601'' iso_msg"
    by (rule iso_msg_guidance)
  {
    fix s a n and st :: "'a db"
    assume h: "v = JStr s \<and> s \<noteq> [] \<and> args_get_int a ''id_sensor'' None = Some n \<and> n \<noteq> 0
               \<and> (args_get a ''desde'' = Some s \<or> args_get a ''hasta'' = Some s)"
    then have "build_query L n a = Inl (ValueError iso_msg)"
      using assms build_query_bad [of L s e a n] by auto
    then show "consultar_mediciones L st a = Fail iso_msg 400 None"
      using h by (simp add: consultar_mediciones_def)
  }
  {
    fix pre ms item rest u n and st :: "'a db"
    assume h: "list_all2 (\<lambda>item m. leer_item L item = Inr m) pre ms
             \<and> getitem item ''id_sensor'' = Inr u \<and> py_int L u = Inr n
             \<and> getitem item ''fecha_hora'' = Inr v"
    then have "leer_item L item = Inl (ValueError iso_msg)"
      using assms e by (simp add: leer_item_def)
    from crear_item_invalido [OF _ this, of pre ms st rest] h
    show "crear_mediciones L st (JArr (pre @ item # rest))
               = (Fail (item_msg (Suc (length pre)) iso_msg) 400 None, st)"
      by (simp add: handler_def)
  }
qed

theorem timestamp_invalido_witness:
  "contains ''ISO 8601'' iso_msg
   \<and> consultar_mediciones ref_lib db1 [(''id_sensor'', ''1''), (''desde'', ''ayer'')]
       = Fail iso_msg 400 None
   \<and> crear_mediciones ref_lib db0 lote_ts = (Fail (item_msg 2 iso_msg) 400 None, db0)"
proof -
  note t = timestamp_invalido [OF parse_ayer]
  have q: "consultar_mediciones ref_lib db1 [(''id_sensor'', ''1''), (''desde'', ''ayer'')]
       = Fail iso_msg 400 None"
  proof -
    have "args_get_int [(''id_sensor'', ''1''), (''desde'', ''ayer'')] ''id_sensor'' None = Some 1"
      by code_simp
    moreover have "args_get [(''id_sensor'', ''1''), (''desde'', ''ayer'')] ''desde'' = Some ''ayer''"
      by (simp add: args_get_def)
    ultimately show ?thesis
      using t [THEN conjunct2, THEN conjunct2, THEN conjunct1, rule_format,
               of "''ayer''" "[(''id_sensor'', ''1''), (''desde'', ''ayer'')]" 1 db1]
      by simp
  qed
  have c: "crear_mediciones ref_lib db0 lote_ts = (Fail (item_msg 2 iso_msg) 400 None, db0)"
  proof -
    have pre: "list_all2 (\<lambda>item m. leer_item ref_lib item = Inr m)
                 [lectura 1 ''2025-01-01T00:00:00Z'' 5]
                 [\<lparr>id_sensor = 1, fecha_hora = dt_utc 2025 1 1 0 0 0, valor = 5\<rparr>]"
      using item_read5 by simp
    have g: "getitem (lectura 1 ''ayer'' 9) ''id_sensor'' = Inr (JInt 1)"
      "getitem (lectura 1 ''ayer'' 9) ''fecha_hora'' = Inr (JStr ''ayer'')"
      "py_int ref_lib (JInt 1 :: rat json) = Inr 1"
      by (simp_all add: lectura_def)
    have l: "lote_ts = JArr ([lectura 1 ''2025-01-01T00:00:00Z'' 5] @ lectura 1 ''ayer'' 9 # [])"
      by (simp add: lote_ts_def)
    have "crear_mediciones ref_lib db0
            (JArr ([lectura 1 ''2025-01-01T00:00:00Z'' 5] @ lectura 1 ''ayer'' 9 # []))
          = (Fail (item_msg (Suc (length [lectura 1 ''2025-01-01T00:00:00Z'' 5 :: rat json])) iso_msg)
               400 None, db0)"
      using t [THEN conjunct2, THEN conjunct2, THEN conjunct2, rule_format,
               of "[lectura 1 ''2025-01-01T00:00:00Z'' 5]"
                  "[\<lparr>id_sensor = 1, fecha_hora = dt_utc 2025 1 1 0 0 0, valor = 5\<rparr>]"
                  "lectura 1 ''ayer'' 9" "JInt 1" 1 db0 "[]"]
        pre g
      by blast
    then show ?thesis
      unfolding l by (simp add: numeral_2_eq_2)
  qed
  show ?thesis
    using t q c by simp
qed

text \<open>
  The claim C9 as stated, that the message carries the offending input, fails: for the
  input \<open>ayer\<close> the message does not contain it.
\<close>

theorem timestamp_invalido_counterexample:
  "parse_iso_datetime ref_lib (JStr ''ayer'') = Inl (ValueError iso_msg)
   \<and> \<not> contains ''ayer'' iso_msg"
  by code_simp

text \<open>
  C7: when the parser returns a naive value for the text (with every \<open>Z\<close> replaced),
  the result is that wall-clock reading at offset zero, so its instant is the reading
  taken as UTC; a \<open>Z\<close> is read as \<open>+00:00\<close>; and 2025-10-14T09:30:00 parses to the same
  value with and without a final \<open>Z\<close>.
\<close>

theorem parse_iso_datetime_utc:
  "(\<forall>dt. fromisoformat L (replace_Z s) = Some dt \<and> tzinfo dt = None \<longrightarrow>
        parse_iso_datetime L (JStr s) = Inr (dt\<lparr>tzinfo := Some 0\<rparr>)
        \<and> instant (dt\<lparr>tzinfo := Some 0\<rparr>) = wall_micros dt)
   \<and> parse_iso_datetime L (JStr s) = parse_iso_datetime L (JStr (replace_Z s))
   \<and> parse_iso_datetime L (JStr (s @ ''Z'')) = parse_iso_datetime L (JStr (s @ ''+00:00''))
   \<and> parse_iso_datetime ref_lib (JStr ''2025-10-14T09:30:00'') = Inr (dt_utc 2025 10 14 9 30 0)
   \<and> parse_iso_datetime ref_lib (JStr ''2025-10-14T09:30:00Z'') = Inr (dt_utc 2025 10 14 9 30 0)"
proof (intro conjI allI impI)
  fix dt
  assume h: "fromisoformat L (replace_Z s) = Some dt \<and> tzinfo dt = None"
  then show "parse_iso_datetime L (JStr s) = Inr (dt\<lparr>tzinfo := Some 0\<rparr>)"
    by simp
  show "instant (dt\<lparr>tzinfo := Some 0\<rparr>) = wall_micros dt"
    by (simp add: instant_def wall_micros_def)
next
  show "parse_iso_datetime L (JStr s) = parse_iso_datetime L (JStr (replace_Z s))"
    by (simp add: replace_Z_idem)
  show "parse_iso_datetime L (JStr (s @ ''Z'')) = parse_iso_datetime L (JStr (s @ ''+00:00''))"
    by (simp add: replace_Z_append)
  show "parse_iso_datetime ref_lib (JStr ''2025-10-14T09:30:00'') = Inr (dt_utc 2025 10 14 9 30 0)"
    by code_simp
  show "parse_iso_datetime ref_lib (JStr ''2025-10-14T09:30:00Z'') = Inr (dt_utc 2025 10 14 9 30 0)"
    by code_simp
qed

theorem parse_iso_datetime_utc_witness:
  "parse_iso_datetime ref_lib (JStr ''2025-10-14T09:30:00'') = Inr (naive_ej\<lparr>tzinfo := Some 0\<rparr>)
   \<and> instant (naive_ej\<lparr>tzinfo := Some 0\<rparr>) = wall_micros naive_ej"
proof -
  have "tzinfo naive_ej = None"
    by (simp add: naive_ej_def)
  then show ?thesis
    using parse_iso_datetime_utc [of ref_lib "''2025-10-14T09:30:00''", THEN conjunct1,
                                  rule_format, of naive_ej] from_naive
    by blast
qed

section \<open>The query\<close>

lemma add_bound_is:
  "bound_is L v b \<Longrightarrow> add_bound L mk v q = Inr (q\<lparr>conds := conds q @ bound_conds mk b\<rparr>)"
  by (auto simp: add_bound_def bound_is_def bound_conds_def split: option.splits if_splits sum.splits)

lemma lower_desc: "lower ''desc'' \<noteq> ''asc''"
  by (simp add: lower_def)


lemma build_query_is:
  assumes "bound_is L (args_get a ''desde'') lo" and "bound_is L (args_get a ''hasta'') hi"
  shows "build_query L n a =
     Inr \<lparr>conds = [Sensor_eq n] @ bound_conds Fecha_ge lo @ bound_conds Fecha_le hi,
          orden = Some (spec_order a), limite = args_get_int a ''limit'' (Some 100)\<rparr>"
  using add_bound_is [OF assms(1)] add_bound_is [OF assms(2)] lower_desc
  by (auto simp: build_query_def Let_def spec_order_def split: option.splits)

lemma holds_matches:
  "list_all (holds r) ([Sensor_eq n] @ bound_conds Fecha_ge lo @ bound_conds Fecha_le hi)
   = matches n lo hi r"
  by (auto simp: matches_def bound_conds_def split: option.splits)

lemma order_rows_mset: "mset (order_rows d rows) = mset rows"
  by (auto simp: order_rows_def split: option.splits direction.splits)

lemma order_rows_sorted: "sorted_by d (order_rows (Some d) rows)"
proof (cases d)
  case Asc
  then show ?thesis by (simp add: sorted_by_def order_rows_def)
next
  case Desc
  have "sorted_wrt (\<ge>) (rev (map fila_instante (sort_key fila_instante rows)))"
    unfolding sorted_wrt_rev by simp
  then show ?thesis
    using Desc by (simp add: sorted_by_def order_rows_def rev_map)
qed






lemma b_lo: "bound_is ref_lib (args_get args_ej ''desde'') (Some 63871376400000000)"
  by code_simp

lemma b_hi: "bound_is ref_lib (args_get args_ej ''hasta'') (Some 63871380000000000)"
  by code_simp

lemma a_id: "args_get_int args_ej ''id_sensor'' None = Some 1"
  by code_simp

lemma a_lim: "args_get_int args_ej ''limit'' (Some 100) = Some 1"
  by code_simp



lemma fetch_legible: "list_all legible rows \<Longrightarrow> fetch L rows = Inr rows"
  by (simp add: fetch_def list_all_iff filter_False)

text \<open>
  C5, for a limit from 0 to \<open>2 ^ 63 - 1\<close> and stored readings that can be read back:
  with a sensor id that is not zero, bounds that are absent or parse, limit \<open>k\<close> (100
  when \<^verbatim>\<open>limit\<close> is absent), and every reading of the sensor within the bounds at an
  instant of the years 1 to 9999, the query succeeds with status 200 and returns the
  first \<open>k\<close> entries of a list that holds exactly the readings of the sensor within the
  inclusive bounds, sorted by instant in the order asked for; when no reading matches,
  the result is the empty list, with status 200.
\<close>

theorem consultar_result:
  assumes "args_get_int a ''id_sensor'' None = Some n" and "n \<noteq> 0"
    and "bound_is L (args_get a ''desde'') lo" and "bound_is L (args_get a ''hasta'') hi"
    and "args_get_int a ''limit'' (Some 100) = Some k" and "0 \<le> k" and "k < 2 ^ 63"
    and "list_all legible (filter (matches n lo hi) (mediciones st))"
  shows "\<exists>all. consultar_mediciones L st a = Ok (Filas (take (nat k) all)) 200
            \<and> mset all = mset (filter (matches n lo hi) (mediciones st))
            \<and> sorted_by (spec_order a) all
            \<and> (args_get a ''limit'' = None \<longrightarrow> k = 100)
            \<and> (filter (matches n lo hi) (mediciones st) = [] \<longrightarrow>
                 consultar_mediciones L st a = Ok (Filas []) 200)"
proof -
  let ?all = "order_rows (Some (spec_order a)) (filter (matches n lo hi) (mediciones st))"
  have all: "mset ?all = mset (filter (matches n lo hi) (mediciones st))"
    by (rule order_rows_mset)
  have "\<not> (k < 0 \<or> 2 ^ 63 \<le> k)"
    using assms(6,7) by simp
  then have "run_select st \<lparr>conds = [Sensor_eq n] @ bound_conds Fecha_ge lo @ bound_conds Fecha_le hi,
          orden = Some (spec_order a), limite = Some k\<rparr> = Inr (take (nat k) ?all)"
    unfolding run_select_def Let_def
    by (simp only: holds_matches query.simps option.case if_False)
  moreover have "list_all legible (take (nat k) ?all)"
  proof -
    have "set ?all = set (filter (matches n lo hi) (mediciones st))"
      using all by (rule mset_eq_setD)
    then have "set (take (nat k) ?all) \<subseteq> set (filter (matches n lo hi) (mediciones st))"
      using set_take_subset [of "nat k" ?all] by simp
    then show ?thesis
      using assms(8) unfolding list_all_iff by blast
  qed
  ultimately have "execute L st \<lparr>conds = [Sensor_eq n] @ bound_conds Fecha_ge lo @ bound_conds Fecha_le hi,
          orden = Some (spec_order a), limite = Some k\<rparr> = Inr (take (nat k) ?all)"
    by (simp add: execute_def fetch_legible)
  then have "consultar_mediciones L st a = Ok (Filas (take (nat k) ?all)) 200"
    using assms(1,2,5) build_query_is [OF assms(3,4), of n]
    by (simp add: consultar_mediciones_def)
  moreover have "args_get a ''limit'' = None \<longrightarrow> k = 100"
  proof
    assume "args_get a ''limit'' = None"
    then have "args_get_int a ''limit'' (Some 100) = Some 100"
      by (simp add: args_get_int_def args_get_def)
    with assms(5) show "k = 100"
      by simp
  qed
  moreover have "sorted_by (spec_order a) ?all"
    by (rule order_rows_sorted)
  moreover have "filter (matches n lo hi) (mediciones st) = [] \<longrightarrow> ?all = []"
    using all by (metis mset_zero_iff)
  ultimately show ?thesis
    using all by (intro exI [of _ ?all]) auto
qed

lemma db3_legible:
  "list_all legible (filter (matches 1 (Some 63871376400000000) (Some 63871380000000000))
                            (mediciones db3))"
  by code_simp

theorem consultar_result_witness:
  "\<exists>all. consultar_mediciones ref_lib db3 args_ej = Ok (Filas (take 1 all)) 200
          \<and> mset all = mset (filter (matches 1 (Some 63871376400000000) (Some 63871380000000000))
                                 (mediciones db3))
          \<and> sorted_by (spec_order args_ej) all"
  using consultar_result [OF a_id _ b_lo b_hi a_lim _ _ db3_legible] by auto

text \<open>
  The claim C5 as stated, for every limit and every state, fails in three ways.
  \<^verbatim>\<open>limit=-1\<close> and \<^verbatim>\<open>limit=9223372036854775808\<close> are handed to the database, which
  refuses them, and the query answers with status 400. And after the ingest of a reading
  at 0001-01-01T00:00:00+01:00, which is accepted, the query for its sensor does not
  succeed: the stored instant cannot be read back.
\<close>

theorem consultar_result_counterexample:
  "consultar_mediciones ref_lib db1 [(''id_sensor'', ''1''), (''limit'', ''-1'')]
     = Fail consultar_msg 400 (Some (DataError (- 1)))
   \<and> consultar_mediciones ref_lib db1 [(''id_sensor'', ''1''), (''limit'', ''9223372036854775808'')]
     = Fail consultar_msg 400 (Some (DataError 9223372036854775808))
   \<and> crear_mediciones ref_lib db0 (lectura 1 ''0001-01-01T00:00:00+01:00'' 5)
     = (Ok (Insertados 1) 201,
        db0\<lparr>mediciones := [\<lparr>fila_sensor = 1, fila_instante = 82800000000, fila_valor = 5\<rparr>]\<rparr>)
   \<and> \<not> exito (consultar_mediciones ref_lib
               (db0\<lparr>mediciones := [\<lparr>fila_sensor = 1, fila_instante = 82800000000, fila_valor = 5\<rparr>]\<rparr>)
               [(''id_sensor'', ''1'')])"
  by code_simp

end
